theory Spec2Isabelle
  imports Main
begin

section \<open>Data model\<close>

text \<open>
  The two techs of this repository are glue around inherited methods of the base techs of
  enb-bemxjst and around the modules of enb-bem-i18n. Every collaborator is a parameter of
  the model; every promise rejection and exception is a value of type \<open>error\<close>.
\<close>

datatype error =
    MissingConfigurationError string
  | FileReadError string
  | KeysetParseError
  | CompilationError
  | TypeError
  | ReferenceError string
  | NoSuchObject nat

text \<open>Plain JavaScript data: what a parsed keyset bundle holds and what option objects are.\<close>

datatype jsvalue =
    JUndefined
  | JNumber int
  | JString string
  | JObject "(string \<times> jsvalue) list"

text \<open>An entry of the FileList; the builder's base methods look at \<open>fullname\<close> only.\<close>

record file_entry =
  fullname :: string

text \<open>
  A template source entry. The entry appended by the builder is the object literal
  \<open>{ contents: ... }\<close>: it has no \<open>path\<close>.
\<close>

record source =
  path :: "string option"
  contents :: string

text \<open>The fields the builder reads from the result of \<open>keysets.parse\<close>.\<close>

record parsed =
  version :: jsvalue
  keysets :: jsvalue
  core :: jsvalue

type_synonym cache = string

record node =
  getRootDir :: string
  getNodeCache :: "string \<Rightarrow> cache"

text \<open>
  The modules required at the top of each file: \<open>os.EOL\<close>,
  \<open>enb-bem-i18n/lib/keysets\<close> (\<open>read\<close>, \<open>parse\<close>) and \<open>enb-bem-i18n/lib/compile\<close>.
\<close>

record modules =
  EOL :: string
  keysets_read :: "string \<Rightarrow> cache \<Rightarrow> string \<Rightarrow> error + string"
  keysets_parse :: "string \<Rightarrow> error + parsed"
  compileI18N :: "jsvalue \<Rightarrow> jsvalue \<Rightarrow> jsvalue \<Rightarrow> error + string"

text \<open>
  The tech instance \<open>this\<close>: the option \<open>_lang\<close>, the target \<open>_target\<close>, the node and the
  methods inherited from the base tech. The second argument of \<open>_compileBEMXJST\<close> is the
  compiler name, \<open>None\<close> when the call passes one argument.
\<close>

record bem_xjst_tech =
  lang :: string
  target :: string
  node :: node
  getUniqueFilenames :: "file_entry list \<Rightarrow> string list"
  readFiles :: "string list \<Rightarrow> error + source list"
  processSources :: "source list \<Rightarrow> error + source list"
  compileBEMXJST :: "source list \<Rightarrow> string option \<Rightarrow> error + string"

record bemhtml_tech = bem_xjst_tech +
  mockBEMHTML :: "error + string"

record bemtree_tech = bem_xjst_tech +
  mockBEMTREE :: "error + string"

section \<open>Calls and promises\<close>

text \<open>Every call that leaves the tech is logged with its arguments.\<close>

datatype event =
    EvReadFiles "string list"
  | EvProcessSources "source list"
  | EvKeysetsRead string cache string
  | EvKeysetsParse string
  | EvCompileI18N jsvalue jsvalue jsvalue
  | EvCompileBEMXJST "source list" "string option"
  | EvMockBEMHTML
  | EvMockBEMTREE

text \<open>
  A settled promise: its outcome (\<open>Inl\<close> is a rejection) and the calls made on the way.
  The log of a join lists the calls of the first branch, then those of the second: it
  groups them by branch and says nothing about their interleaving in time.
\<close>

type_synonym 'a promise = "(error + 'a) \<times> event list"

definition then_promise :: "'a promise \<Rightarrow> ('a \<Rightarrow> 'b promise) \<Rightarrow> 'b promise" where
  "then_promise p f =
     (case p of
        (Inl e, t) \<Rightarrow> (Inl e, t)
      | (Inr x, t) \<Rightarrow> (case f x of (r, t') \<Rightarrow> (r, t @ t')))"

text \<open>
  \<open>vow.all\<close> of two promises. Both were started by the caller and neither is cancelled,
  so the calls of both are in the log. The join is rejected with the first rejection it
  observes; when both branches reject, \<open>first\<close> says which one was seen first.
\<close>

datatype branch = FirstBranch | SecondBranch

definition vow_all :: "branch \<Rightarrow> 'a promise \<Rightarrow> 'b promise \<Rightarrow> ('a \<times> 'b) promise" where
  "vow_all first p q =
     (case fst p of
        Inl ea \<Rightarrow>
          (case fst q of
             Inl eb \<Rightarrow> (Inl (if first = FirstBranch then ea else eb), snd p @ snd q)
           | Inr y \<Rightarrow> (Inl ea, snd p @ snd q))
      | Inr x \<Rightarrow>
          (case fst q of
             Inl eb \<Rightarrow> (Inl eb, snd p @ snd q)
           | Inr y \<Rightarrow> (Inr (x, y), snd p @ snd q)))"

text \<open>\<open>Array.prototype.join\<close> on strings.\<close>

fun join :: "string \<Rightarrow> string list \<Rightarrow> string" where
  "join sep [] = []"
| "join sep [x] = x"
| "join sep (x # y # ys) = x @ sep @ join sep (y # ys)"

section \<open>techs/bemhtml-i18n.js\<close>

definition bemhtml_getBEMHTMLSources ::
  "'a bem_xjst_tech_scheme \<Rightarrow> file_entry list \<Rightarrow> source list promise" where
  "bemhtml_getBEMHTMLSources this fileList =
     (let filenames = getUniqueFilenames this fileList in
      then_promise (readFiles this filenames, [EvReadFiles filenames])
        (\<lambda>sources. (processSources this sources, [EvProcessSources sources])))"

definition bemhtml_readKeysetsFile ::
  "modules \<Rightarrow> 'a bem_xjst_tech_scheme \<Rightarrow> string \<Rightarrow> string promise" where
  "bemhtml_readKeysetsFile m this filename =
     (let nd = node this;
          root = getRootDir nd;
          cache = getNodeCache nd (target this) in
      (keysets_read m filename cache root, [EvKeysetsRead filename cache root]))"

definition bemhtml_compileI18N ::
  "modules \<Rightarrow> 'a bem_xjst_tech_scheme \<Rightarrow> string \<Rightarrow> string promise" where
  "bemhtml_compileI18N m this keysetsFilename =
     then_promise (bemhtml_readKeysetsFile m this keysetsFilename)
       (\<lambda>keysetsSource.
          case keysets_parse m keysetsSource of
            Inl e \<Rightarrow> (Inl e, [EvKeysetsParse keysetsSource])
          | Inr parsed \<Rightarrow>
              (let opts = JObject [(''version'', version parsed),
                                   (''language'', JString (lang this))] in
               (compileI18N m (core parsed) (keysets parsed) opts,
                [EvKeysetsParse keysetsSource,
                 EvCompileI18N (core parsed) (keysets parsed) opts])))"

text \<open>The object literal the builder concatenates to the template sources.\<close>

definition bemhtml_oninit_source :: "modules \<Rightarrow> string \<Rightarrow> source" where
  "bemhtml_oninit_source m I18NCode =
     \<lparr>path = None,
      contents = join (EOL m)
        [''oninit(function(exports, context) {'',
         ''    var BEMContext = exports.BEMContext || context.BEMContext;'',
         ''    BEMContext.prototype.i18n = '' @ I18NCode @ '';'',
         ''});'']\<rparr>"

definition bemhtml_builder ::
  "modules \<Rightarrow> branch \<Rightarrow> 'a bemhtml_tech_scheme \<Rightarrow> file_entry list \<Rightarrow> string \<Rightarrow> string promise" where
  "bemhtml_builder m first this fileList keysetsFilename =
     (if length fileList = 0 then (mockBEMHTML this, [EvMockBEMHTML])
      else
        then_promise
          (vow_all first
             (bemhtml_getBEMHTMLSources this fileList)
             (bemhtml_compileI18N m this keysetsFilename))
          (\<lambda>(BEMHTMLSources, I18NCode).
             let sources = BEMHTMLSources @ [bemhtml_oninit_source m I18NCode] in
             (compileBEMXJST this sources None, [EvCompileBEMXJST sources None])))"

section \<open>techs/bemtree-i18n.js\<close>

definition bemtree_getBEMTREESources ::
  "'a bem_xjst_tech_scheme \<Rightarrow> file_entry list \<Rightarrow> source list promise" where
  "bemtree_getBEMTREESources this fileList =
     (let filenames = getUniqueFilenames this fileList in
      then_promise (readFiles this filenames, [EvReadFiles filenames])
        (\<lambda>sources. (processSources this sources, [EvProcessSources sources])))"

definition bemtree_readKeysetsFile ::
  "modules \<Rightarrow> 'a bem_xjst_tech_scheme \<Rightarrow> string \<Rightarrow> string promise" where
  "bemtree_readKeysetsFile m this filename =
     (let nd = node this;
          root = getRootDir nd;
          cache = getNodeCache nd (target this) in
      (keysets_read m filename cache root, [EvKeysetsRead filename cache root]))"

definition bemtree_compileI18N ::
  "modules \<Rightarrow> 'a bem_xjst_tech_scheme \<Rightarrow> string \<Rightarrow> string promise" where
  "bemtree_compileI18N m this keysetsFilename =
     then_promise (bemtree_readKeysetsFile m this keysetsFilename)
       (\<lambda>keysetsSource.
          case keysets_parse m keysetsSource of
            Inl e \<Rightarrow> (Inl e, [EvKeysetsParse keysetsSource])
          | Inr parsed \<Rightarrow>
              (let opts = JObject [(''version'', version parsed),
                                   (''language'', JString (lang this))] in
               (compileI18N m (core parsed) (keysets parsed) opts,
                [EvKeysetsParse keysetsSource,
                 EvCompileI18N (core parsed) (keysets parsed) opts])))"

definition bemtree_oninit_source :: "modules \<Rightarrow> string \<Rightarrow> source" where
  "bemtree_oninit_source m I18NCode =
     \<lparr>path = None,
      contents = join (EOL m)
        [''oninit(function(exports, context) {'',
         ''    var BEMContext = exports.BEMContext || context.BEMContext;'',
         ''    BEMContext.prototype.i18n = '' @ I18NCode @ '';'',
         ''});'']\<rparr>"

definition bemtree_builder ::
  "modules \<Rightarrow> branch \<Rightarrow> 'a bemtree_tech_scheme \<Rightarrow> file_entry list \<Rightarrow> string \<Rightarrow> string promise" where
  "bemtree_builder m first this fileList keysetsFilename =
     (if length fileList = 0 then (mockBEMTREE this, [EvMockBEMTREE])
      else
        then_promise
          (vow_all first
             (bemtree_getBEMTREESources this fileList)
             (bemtree_compileI18N m this keysetsFilename))
          (\<lambda>(BEMTREESources, I18NCode).
             let sources = BEMTREESources @ [bemtree_oninit_source m I18NCode] in
             (compileBEMXJST this sources (Some ''bemtree''),
              [EvCompileBEMXJST sources (Some ''bemtree'')])))"

section \<open>The tech declarations\<close>

text \<open>
  The chain \<open>buildFlow().name(...).target(...).defineRequiredOption(...)
  .useSourceFilename(...)\<close> of each file, as data: the module whose build flow is
  extended, the tech's name, the target option with its default, the required options and
  the source-file option with its default.
\<close>

record tech_declaration =
  baseTech :: string
  name :: string
  targetOption :: "string \<times> string"
  requiredOptions :: "string list"
  sourceFilename :: "string \<times> string"

definition bemhtml_i18n :: tech_declaration where
  "bemhtml_i18n =
     \<lparr>baseTech = ''enb-bemxjst/techs/bemhtml'',
      name = ''bemhtml-i18n'',
      targetOption = (''target'', ''?.bemhtml.{lang}.js''),
      requiredOptions = [''lang''],
      sourceFilename = (''keysetsFile'', ''?.keysets.{lang}.js'')\<rparr>"

definition bemtree_i18n :: tech_declaration where
  "bemtree_i18n =
     \<lparr>baseTech = ''enb-bemxjst/techs/bemtree'',
      name = ''bemtree-i18n'',
      targetOption = (''target'', ''?.bemtree.{lang}.js''),
      requiredOptions = [''lang''],
      sourceFilename = (''keysetsFile'', ''?.keysets.{lang}.js'')\<rparr>"

type_synonym options = "string \<rightharpoonup> string"

text \<open>
  Modelled from the spec: how the host reads a declared option (the build flow of enb is
  not in src/). An option the configuration leaves out takes the declared default.
\<close>

definition getOption :: "options \<Rightarrow> string \<times> string \<Rightarrow> string" where
  "getOption opts d = (case opts (fst d) of None \<Rightarrow> snd d | Some v \<Rightarrow> v)"

text \<open>
  Modelled from the spec: the host's check of the required options (the build flow of enb
  is not in src/). A required option that is absent is a \<open>MissingConfigurationError\<close>.
\<close>

fun requireOptions :: "options \<Rightarrow> string list \<Rightarrow> error + unit" where
  "requireOptions opts [] = Inr ()"
| "requireOptions opts (n # ns) =
     (case opts n of
        None \<Rightarrow> Inl (MissingConfigurationError n)
      | Some v \<Rightarrow> requireOptions opts ns)"

text \<open>
  Modelled from the spec: a build task of the host (the build flow of enb is not in src/).
  The task cannot start without its required options; otherwise \<open>_lang\<close> is the
  configured language and the builder runs.
\<close>

definition bemhtml_i18n_task ::
  "modules \<Rightarrow> branch \<Rightarrow> options \<Rightarrow> 'a bemhtml_tech_scheme \<Rightarrow> file_entry list \<Rightarrow> string
     \<Rightarrow> string promise" where
  "bemhtml_i18n_task m first opts this fileList keysetsFilename =
     (case requireOptions opts (requiredOptions bemhtml_i18n) of
        Inl e \<Rightarrow> (Inl e, [])
      | Inr u \<Rightarrow>
          bemhtml_builder m first
            (this\<lparr>lang := getOption opts (''lang'', lang this)\<rparr>) fileList keysetsFilename)"

text \<open>
  Modelled from the spec: the same build task of the host, for \<open>bemtree-i18n\<close>.
\<close>

definition bemtree_i18n_task ::
  "modules \<Rightarrow> branch \<Rightarrow> options \<Rightarrow> 'a bemtree_tech_scheme \<Rightarrow> file_entry list \<Rightarrow> string
     \<Rightarrow> string promise" where
  "bemtree_i18n_task m first opts this fileList keysetsFilename =
     (case requireOptions opts (requiredOptions bemtree_i18n) of
        Inl e \<Rightarrow> (Inl e, [])
      | Inr u \<Rightarrow>
          bemtree_builder m first
            (this\<lparr>lang := getOption opts (''lang'', lang this)\<rparr>) fileList keysetsFilename)"

section \<open>Inherited methods of the base tech\<close>

text \<open>
  Modelled from the spec: \<open>_getUniqueFilenames\<close> of the base tech (enb-bemxjst, not in
  src/). The file list is deduplicated by file path; a later duplicate is dropped.
  \<open>seen\<close> holds the paths met so far.
\<close>

fun uniqueFilenames :: "string list \<Rightarrow> file_entry list \<Rightarrow> string list" where
  "uniqueFilenames seen [] = []"
| "uniqueFilenames seen (f # fs) =
     (if fullname f \<in> set seen then uniqueFilenames seen fs
      else fullname f # uniqueFilenames (fullname f # seen) fs)"

text \<open>
  Modelled from the spec: \<open>_getUniqueFilenames\<close> starts with no path met.
\<close>

definition base_getUniqueFilenames :: "file_entry list \<Rightarrow> string list" where
  "base_getUniqueFilenames fileList = uniqueFilenames [] fileList"

text \<open>
  Modelled from the spec: \<open>_readFiles\<close> of the base tech (enb-bemxjst, not in src/).
  Each file's contents are read into an entry of path and contents, in the order of the
  names; a file that cannot be read fails the whole read. \<open>rd\<close> is the file system.
\<close>

fun base_readFiles :: "(string \<Rightarrow> error + string) \<Rightarrow> string list \<Rightarrow> error + source list" where
  "base_readFiles rd [] = Inr []"
| "base_readFiles rd (f # fs) =
     (case rd f of
        Inl e \<Rightarrow> Inl e
      | Inr c \<Rightarrow>
          (case base_readFiles rd fs of
             Inl e \<Rightarrow> Inl e
           | Inr ss \<Rightarrow> Inr (\<lparr>path = Some f, contents = c\<rparr> # ss)))"

text \<open>
  The elements of a list at the positions where the element did not occur before, in the
  order of the list: what is left of it when every later duplicate is dropped.
\<close>

definition first_occurrences :: "'a list \<Rightarrow> 'a list" where
  "first_occurrences xs =
     map ((!) xs) (filter (\<lambda>i. xs ! i \<notin> set (take i xs)) [0..<length xs])"

section \<open>The initialization hook at run time\<close>

text \<open>
  The appended entry is program text: a call of \<open>oninit\<close> with a function of
  \<open>exports\<close> and \<open>context\<close>, into which the localization code is spliced as the right
  side of an assignment. What the hook does depends on what that code does when it is
  evaluated inside the hook, with \<open>exports\<close>, \<open>context\<close> and \<open>BEMContext\<close> in scope.

  Values are \<open>undefined\<close> and references to objects. The heap is the list of the objects
  made so far; the address of an object is its position, so a new object never takes the
  place of an old one. An object has members, names with their values in the order they
  were first assigned, and, when it is a function, the text of its parameters and body.
\<close>

datatype rtvalue = RUndefined | RObject nat

record jsobject =
  members :: "(string \<times> rtvalue) list"
  code :: "(string \<times> string) option"

type_synonym heap = "jsobject list"

type_synonym scope = "string \<rightharpoonup> rtvalue"

definition truthy :: "rtvalue \<Rightarrow> bool" where
  "truthy v = (case v of RUndefined \<Rightarrow> False | RObject a \<Rightarrow> True)"

text \<open>
  Reading a member of \<open>undefined\<close> throws a TypeError; a member that is absent reads as
  \<open>undefined\<close>. A reference to no object of the heap cannot arise in a program and is an
  error of its own.
\<close>

definition get_member :: "heap \<Rightarrow> rtvalue \<Rightarrow> string \<Rightarrow> error + rtvalue" where
  "get_member h v k =
     (case v of
        RUndefined \<Rightarrow> Inl TypeError
      | RObject a \<Rightarrow>
          if a < length h
          then Inr (case map_of (members (h ! a)) k of None \<Rightarrow> RUndefined | Some x \<Rightarrow> x)
          else Inl (NoSuchObject a))"

text \<open>Assigning a member: an existing name keeps its place, a new one is added last.\<close>

fun put :: "string \<Rightarrow> rtvalue \<Rightarrow> (string \<times> rtvalue) list \<Rightarrow> (string \<times> rtvalue) list" where
  "put k x [] = [(k, x)]"
| "put k x ((k', y) # ms) = (if k' = k then (k, x) # ms else (k', y) # put k x ms)"

definition set_member :: "heap \<Rightarrow> rtvalue \<Rightarrow> string \<Rightarrow> rtvalue \<Rightarrow> error + heap" where
  "set_member h v k x =
     (case v of
        RUndefined \<Rightarrow> Inl TypeError
      | RObject a \<Rightarrow>
          if a < length h
          then Inr (h[a := (h ! a)\<lparr>members := put k x (members (h ! a))\<rparr>])
          else Inl (NoSuchObject a))"

text \<open>Following a path of member names from a value: \<open>v.n1.n2\<close> and so on.\<close>

fun walk :: "heap \<Rightarrow> rtvalue \<Rightarrow> string list \<Rightarrow> error + rtvalue" where
  "walk h v [] = Inr v"
| "walk h v (n # ns) =
     (case get_member h v n of
        Inl er \<Rightarrow> Inl er
      | Inr w \<Rightarrow> walk h w ns)"

text \<open>
  The expressions the localization code is taken from: \<open>undefined\<close>, a function
  expression, an assignment to a member reached from a variable in scope, and the comma
  operator. \<open>render\<close> is their text, \<open>evaluate\<close> what evaluating them does: the value
  and the heap afterwards. A function expression makes a new function object and the
  object its \<open>prototype\<close> member refers to. An assignment evaluates the object on its left,
  then its right side, then stores; its value is the value stored.
\<close>

datatype jsexpr =
    EUndefined
  | EFunction string string
  | EAssign string "string list" string jsexpr
  | EComma jsexpr jsexpr


fun evaluate :: "jsexpr \<Rightarrow> scope \<Rightarrow> heap \<Rightarrow> error + (rtvalue \<times> heap)" where
  "evaluate EUndefined sc h = Inr (RUndefined, h)"
| "evaluate (EFunction ps body) sc h =
     Inr (RObject (length h),
          h @ [\<lparr>members = [(''prototype'', RObject (Suc (length h)))], code = Some (ps, body)\<rparr>,
               \<lparr>members = [(''constructor'', RObject (length h))], code = None\<rparr>])"
| "evaluate (EAssign x ns n e) sc h =
     (case sc x of
        None \<Rightarrow> Inl (ReferenceError x)
      | Some b \<Rightarrow>
          (case walk h b ns of
             Inl er \<Rightarrow> Inl er
           | Inr obj \<Rightarrow>
               (case evaluate e sc h of
                  Inl er \<Rightarrow> Inl er
                | Inr (v, h1) \<Rightarrow>
                    (case set_member h1 obj n v of
                       Inl er \<Rightarrow> Inl er
                     | Inr h2 \<Rightarrow> Inr (v, h2)))))"
| "evaluate (EComma a b) sc h =
     (case evaluate a sc h of
        Inl er \<Rightarrow> Inl er
      | Inr (v, h1) \<Rightarrow> evaluate b sc h1)"

text \<open>
  The body of the hook, lines 80 and 81 of both files, for the localization code
  \<open>I18NCode\<close>. The first statement binds \<open>BEMContext\<close> to \<open>exports.BEMContext\<close>, or to
  \<open>context.BEMContext\<close> when the former is not truthy. The second is the assignment
  \<open>BEMContext.prototype.i18n = I18NCode\<close>, evaluated with the three names in scope.
\<close>

definition oninit_hook :: "jsexpr \<Rightarrow> rtvalue \<Rightarrow> rtvalue \<Rightarrow> heap \<Rightarrow> error + heap" where
  "oninit_hook I18NCode exports context h =
     (case get_member h exports ''BEMContext'' of
        Inl er \<Rightarrow> Inl er
      | Inr l \<Rightarrow>
          (case (if truthy l then Inr l else get_member h context ''BEMContext'') of
             Inl er \<Rightarrow> Inl er
           | Inr BEMContext \<Rightarrow>
               (case evaluate (EAssign ''BEMContext'' [''prototype''] ''i18n'' I18NCode)
                       [''exports'' \<mapsto> exports, ''context'' \<mapsto> context,
                        ''BEMContext'' \<mapsto> BEMContext] h of
                  Inl er \<Rightarrow> Inl er
                | Inr (v, h') \<Rightarrow> Inr h')))"

section \<open>Reading the log of calls\<close>

fun isKeysetCall :: "event \<Rightarrow> bool" where
  "isKeysetCall (EvKeysetsRead f c r) = True"
| "isKeysetCall (EvKeysetsParse s) = True"
| "isKeysetCall (EvCompileI18N c k opts) = True"
| "isKeysetCall e = False"

fun isCompileI18N :: "event \<Rightarrow> bool" where
  "isCompileI18N (EvCompileI18N c k opts) = True"
| "isCompileI18N e = False"

fun isCompileBEMXJST :: "event \<Rightarrow> bool" where
  "isCompileBEMXJST (EvCompileBEMXJST s md) = True"
| "isCompileBEMXJST e = False"

fun isFileRead :: "event \<Rightarrow> bool" where
  "isFileRead (EvReadFiles fs) = True"
| "isFileRead (EvKeysetsRead f c r) = True"
| "isFileRead e = False"

section \<open>The builders in one definition\<close>

text \<open>
  What the two builders are said to share, written once: deduplicate and read the
  templates, read, parse and compile the keysets, append the initialization entry and hand
  the sequence to the template compiler. Only the outcome of the mock producer and the
  compiler name vary.
\<close>

definition i18n_builder_spec ::
  "modules \<Rightarrow> branch \<Rightarrow> 'a bem_xjst_tech_scheme \<Rightarrow> string promise \<Rightarrow> string option
     \<Rightarrow> file_entry list \<Rightarrow> string \<Rightarrow> string promise" where
  "i18n_builder_spec m first this mock compilerName fileList keysetsFilename =
     (if fileList = [] then mock
      else
        let filenames = getUniqueFilenames this fileList;
            templates =
              then_promise (readFiles this filenames, [EvReadFiles filenames])
                (\<lambda>raw. (processSources this raw, [EvProcessSources raw]));
            cache = getNodeCache (node this) (target this);
            root = getRootDir (node this);
            localization =
              then_promise
                (keysets_read m keysetsFilename cache root,
                 [EvKeysetsRead keysetsFilename cache root])
                (\<lambda>raw.
                   case keysets_parse m raw of
                     Inl e \<Rightarrow> (Inl e, [EvKeysetsParse raw])
                   | Inr p \<Rightarrow>
                       (compileI18N m (core p) (keysets p)
                          (JObject [(''version'', version p),
                                    (''language'', JString (lang this))]),
                        [EvKeysetsParse raw,
                         EvCompileI18N (core p) (keysets p)
                           (JObject [(''version'', version p),
                                     (''language'', JString (lang this))])]))
        in
        then_promise (vow_all first templates localization)
          (\<lambda>(srcs, code).
             let entry =
                   \<lparr>path = None,
                    contents =
                      ''oninit(function(exports, context) {'' @ EOL m @
                      ''    var BEMContext = exports.BEMContext || context.BEMContext;'' @ EOL m @
                      ''    BEMContext.prototype.i18n = '' @ code @ '';'' @ EOL m @
                      ''});''\<rparr>
             in (compileBEMXJST this (srcs @ [entry]) compilerName,
                 [EvCompileBEMXJST (srcs @ [entry]) compilerName])))"

section \<open>A build scenario\<close>

text \<open>
  Two template files on disk, one keyset bundle for the language \<open>en\<close>, and a file list
  that names the first template twice.
\<close>

definition example_disk :: "string \<Rightarrow> error + string" where
  "example_disk f =
     (if f = ''a.bemhtml'' then Inr ''block(a)''
      else if f = ''b.bemhtml'' then Inr ''block(b)''
      else Inl (FileReadError f))"

definition example_keysets :: jsvalue where
  "example_keysets = JObject [(''en'', JObject [(''a'', JObject [(''b'', JString ''hi'')])])]"

definition example_modules :: modules where
  "example_modules =
     \<lparr>EOL = [CHR 0x0A],
      keysets_read =
        (\<lambda>f c r. if f = ''bundle.keysets.en.js'' then Inr ''raw keysets''
                 else Inl (FileReadError f)),
      keysets_parse =
        (\<lambda>s. if s = ''raw keysets''
             then Inr \<lparr>version = JNumber 1, keysets = example_keysets, core = JUndefined\<rparr>
             else Inl KeysetParseError),
      compileI18N = (\<lambda>c k opts. Inr ''function () {}'')\<rparr>"

definition example_node :: node where
  "example_node = \<lparr>getRootDir = ''/project'', getNodeCache = (\<lambda>t. ''cache:'' @ t)\<rparr>"

definition example_bemhtml :: bemhtml_tech where
  "example_bemhtml =
     \<lparr>lang = ''en'',
      target = ''bundle.bemhtml.en.js'',
      node = example_node,
      getUniqueFilenames = base_getUniqueFilenames,
      readFiles = base_readFiles example_disk,
      processSources = Inr,
      compileBEMXJST = (\<lambda>srcs md. Inr (concat (map contents srcs))),
      mockBEMHTML = Inr ''mock BEMHTML''\<rparr>"

definition example_bemtree :: bemtree_tech where
  "example_bemtree =
     \<lparr>lang = ''en'',
      target = ''bundle.bemtree.en.js'',
      node = example_node,
      getUniqueFilenames = base_getUniqueFilenames,
      readFiles = base_readFiles example_disk,
      processSources = Inr,
      compileBEMXJST = (\<lambda>srcs md. Inr (concat (map contents srcs))),
      mockBEMTREE = Inr ''mock BEMTREE''\<rparr>"

definition example_fileList :: "file_entry list" where
  "example_fileList =
     [\<lparr>fullname = ''a.bemhtml''\<rparr>, \<lparr>fullname = ''b.bemhtml''\<rparr>, \<lparr>fullname = ''a.bemhtml''\<rparr>]"

text \<open>
  A heap for the hook: the exports object (address 0) with the base class, an empty
  context object (1), the base class (2), its prototype (3) with the member \<open>apply\<close>, and
  the function \<open>apply\<close> refers to (4).
\<close>

definition example_heap :: heap where
  "example_heap =
     [\<lparr>members = [(''BEMContext'', RObject 2)], code = None\<rparr>,
      \<lparr>members = [], code = None\<rparr>,
      \<lparr>members = [(''prototype'', RObject 3)], code = Some ([], [])\<rparr>,
      \<lparr>members = [(''apply'', RObject 4)], code = None\<rparr>,
      \<lparr>members = [], code = Some ([], [])\<rparr>]"

text \<open>
  The same heap after the hook has run with the localization code \<open>function () {}\<close>:
  the prototype has the member \<open>i18n\<close>, and the new function (5) and the object its
  \<open>prototype\<close> member refers to (6) are on the heap.
\<close>

definition example_heap_localized :: heap where
  "example_heap_localized =
     [\<lparr>members = [(''BEMContext'', RObject 2)], code = None\<rparr>,
      \<lparr>members = [], code = None\<rparr>,
      \<lparr>members = [(''prototype'', RObject 3)], code = Some ([], [])\<rparr>,
      \<lparr>members = [(''apply'', RObject 4), (''i18n'', RObject 5)], code = None\<rparr>,
      \<lparr>members = [], code = Some ([], [])\<rparr>,
      \<lparr>members = [(''prototype'', RObject 6)], code = Some ([], [])\<rparr>,
      \<lparr>members = [(''constructor'', RObject 5)], code = None\<rparr>]"




section \<open>Promises and logs\<close>

lemma then_promise_Inl: "then_promise (Inl e, t) f = (Inl e, t)"
  by (simp add: then_promise_def)

lemma then_promise_Inr: "then_promise (Inr x, t) f = (fst (f x), t @ snd (f x))"
  by (simp add: then_promise_def split: prod.splits)

lemma vow_all_Inr:
  "vow_all first (Inr x, tp) (Inr y, tq) = (Inr (x, y), tp @ tq)"
  by (simp add: vow_all_def)

lemma vow_all_log: "snd (vow_all first p q) = snd p @ snd q"
  by (simp add: vow_all_def split: sum.splits)

lemma bemhtml_sources_log:
  "snd (bemhtml_getBEMHTMLSources this fl) =
     (case readFiles this (getUniqueFilenames this fl) of
        Inl e \<Rightarrow> [EvReadFiles (getUniqueFilenames this fl)]
      | Inr raw \<Rightarrow> [EvReadFiles (getUniqueFilenames this fl), EvProcessSources raw])"
  by (simp add: bemhtml_getBEMHTMLSources_def then_promise_def Let_def split: sum.splits)

lemma bemtree_sources_log:
  "snd (bemtree_getBEMTREESources this fl) =
     (case readFiles this (getUniqueFilenames this fl) of
        Inl e \<Rightarrow> [EvReadFiles (getUniqueFilenames this fl)]
      | Inr raw \<Rightarrow> [EvReadFiles (getUniqueFilenames this fl), EvProcessSources raw])"
  by (simp add: bemtree_getBEMTREESources_def then_promise_def Let_def split: sum.splits)

lemma bemhtml_sources_result:
  "fst (bemhtml_getBEMHTMLSources this fl) =
     (case readFiles this (getUniqueFilenames this fl) of
        Inl e \<Rightarrow> Inl e
      | Inr raw \<Rightarrow> processSources this raw)"
  by (simp add: bemhtml_getBEMHTMLSources_def then_promise_def Let_def split: sum.splits)

lemma bemtree_sources_result:
  "fst (bemtree_getBEMTREESources this fl) =
     (case readFiles this (getUniqueFilenames this fl) of
        Inl e \<Rightarrow> Inl e
      | Inr raw \<Rightarrow> processSources this raw)"
  by (simp add: bemtree_getBEMTREESources_def then_promise_def Let_def split: sum.splits)

lemma bemhtml_i18n_log:
  "snd (bemhtml_compileI18N m this kf) =
     (let cache = getNodeCache (node this) (target this); root = getRootDir (node this) in
      EvKeysetsRead kf cache root #
      (case keysets_read m kf cache root of
         Inl e \<Rightarrow> []
       | Inr raw \<Rightarrow>
           EvKeysetsParse raw #
           (case keysets_parse m raw of
              Inl e \<Rightarrow> []
            | Inr p \<Rightarrow>
                [EvCompileI18N (core p) (keysets p)
                   (JObject [(''version'', version p), (''language'', JString (lang this))])])))"
  by (simp add: bemhtml_compileI18N_def bemhtml_readKeysetsFile_def then_promise_def Let_def
           split: sum.splits)

lemma bemtree_i18n_log:
  "snd (bemtree_compileI18N m this kf) =
     (let cache = getNodeCache (node this) (target this); root = getRootDir (node this) in
      EvKeysetsRead kf cache root #
      (case keysets_read m kf cache root of
         Inl e \<Rightarrow> []
       | Inr raw \<Rightarrow>
           EvKeysetsParse raw #
           (case keysets_parse m raw of
              Inl e \<Rightarrow> []
            | Inr p \<Rightarrow>
                [EvCompileI18N (core p) (keysets p)
                   (JObject [(''version'', version p), (''language'', JString (lang this))])])))"
  by (simp add: bemtree_compileI18N_def bemtree_readKeysetsFile_def then_promise_def Let_def
           split: sum.splits)

lemma bemhtml_i18n_result:
  "fst (bemhtml_compileI18N m this kf) =
     (case keysets_read m kf (getNodeCache (node this) (target this)) (getRootDir (node this)) of
        Inl e \<Rightarrow> Inl e
      | Inr raw \<Rightarrow>
          (case keysets_parse m raw of
             Inl e \<Rightarrow> Inl e
           | Inr p \<Rightarrow>
               compileI18N m (core p) (keysets p)
                 (JObject [(''version'', version p), (''language'', JString (lang this))])))"
  by (simp add: bemhtml_compileI18N_def bemhtml_readKeysetsFile_def then_promise_def Let_def
           split: sum.splits)

lemma bemtree_i18n_result:
  "fst (bemtree_compileI18N m this kf) =
     (case keysets_read m kf (getNodeCache (node this) (target this)) (getRootDir (node this)) of
        Inl e \<Rightarrow> Inl e
      | Inr raw \<Rightarrow>
          (case keysets_parse m raw of
             Inl e \<Rightarrow> Inl e
           | Inr p \<Rightarrow>
               compileI18N m (core p) (keysets p)
                 (JObject [(''version'', version p), (''language'', JString (lang this))])))"
  by (simp add: bemtree_compileI18N_def bemtree_readKeysetsFile_def then_promise_def Let_def
           split: sum.splits)

lemma bemhtml_builder_result:
  "fileList \<noteq> [] \<Longrightarrow>
   fst (bemhtml_builder m first this fileList kf) =
     (case fst (bemhtml_getBEMHTMLSources this fileList) of
        Inl ea \<Rightarrow>
          (case fst (bemhtml_compileI18N m this kf) of
             Inl eb \<Rightarrow> Inl (if first = FirstBranch then ea else eb)
           | Inr c \<Rightarrow> Inl ea)
      | Inr s \<Rightarrow>
          (case fst (bemhtml_compileI18N m this kf) of
             Inl eb \<Rightarrow> Inl eb
           | Inr c \<Rightarrow> compileBEMXJST this (s @ [bemhtml_oninit_source m c]) None))"
  by (simp add: bemhtml_builder_def vow_all_def then_promise_def Let_def split: sum.splits)

lemma bemhtml_builder_log:
  "fileList \<noteq> [] \<Longrightarrow>
   snd (bemhtml_builder m first this fileList kf) =
     snd (bemhtml_getBEMHTMLSources this fileList) @ snd (bemhtml_compileI18N m this kf) @
     (case fst (bemhtml_getBEMHTMLSources this fileList) of
        Inl ea \<Rightarrow> []
      | Inr s \<Rightarrow>
          (case fst (bemhtml_compileI18N m this kf) of
             Inl eb \<Rightarrow> []
           | Inr c \<Rightarrow> [EvCompileBEMXJST (s @ [bemhtml_oninit_source m c]) None]))"
  by (simp add: bemhtml_builder_def vow_all_def then_promise_def Let_def split: sum.splits)

lemma bemtree_builder_result:
  "fileList \<noteq> [] \<Longrightarrow>
   fst (bemtree_builder m first this fileList kf) =
     (case fst (bemtree_getBEMTREESources this fileList) of
        Inl ea \<Rightarrow>
          (case fst (bemtree_compileI18N m this kf) of
             Inl eb \<Rightarrow> Inl (if first = FirstBranch then ea else eb)
           | Inr c \<Rightarrow> Inl ea)
      | Inr s \<Rightarrow>
          (case fst (bemtree_compileI18N m this kf) of
             Inl eb \<Rightarrow> Inl eb
           | Inr c \<Rightarrow> compileBEMXJST this (s @ [bemtree_oninit_source m c]) (Some ''bemtree'')))"
  by (simp add: bemtree_builder_def vow_all_def then_promise_def Let_def split: sum.splits)

lemma bemtree_builder_log:
  "fileList \<noteq> [] \<Longrightarrow>
   snd (bemtree_builder m first this fileList kf) =
     snd (bemtree_getBEMTREESources this fileList) @ snd (bemtree_compileI18N m this kf) @
     (case fst (bemtree_getBEMTREESources this fileList) of
        Inl ea \<Rightarrow> []
      | Inr s \<Rightarrow>
          (case fst (bemtree_compileI18N m this kf) of
             Inl eb \<Rightarrow> []
           | Inr c \<Rightarrow> [EvCompileBEMXJST (s @ [bemtree_oninit_source m c]) (Some ''bemtree'')]))"
  by (simp add: bemtree_builder_def vow_all_def then_promise_def Let_def split: sum.splits)

lemma uniqueFilenames_index:
  "uniqueFilenames seen fs =
     map ((!) (map fullname fs))
       (filter (\<lambda>i. map fullname fs ! i \<notin> set seen \<union> set (take i (map fullname fs)))
          [0..<length fs])"
proof (induction fs arbitrary: seen)
  case Nil
  show ?case by simp
next
  case (Cons f fs)
  have upt: "[0..<length (f # fs)] = 0 # map Suc [0..<length fs]"
    by (metis length_Cons map_Suc_upt upt_conv_Cons zero_less_Suc)
  show ?case
  proof (cases "fullname f \<in> set seen")
    case True
    then have same: "\<And>n Q. (n \<notin> set seen \<and> n \<noteq> fullname f \<and> Q) = (n \<notin> set seen \<and> Q)"
      by auto
    show ?thesis
      unfolding upt using True
      by (simp add: filter_map comp_def Cons.IH [of seen] same)
  next
    case False
    show ?thesis
      unfolding upt using False
      by (simp add: filter_map comp_def Cons.IH [of "fullname f # seen"] conj_left_commute)
  qed
qed

lemma uniqueFilenames_distinct:
  "distinct (uniqueFilenames seen fs) \<and> set (uniqueFilenames seen fs) = fullname ` set fs - set seen"
  by (induction fs arbitrary: seen) auto

lemma base_readFiles_entries:
  "base_readFiles rd ns = Inr ss \<Longrightarrow>
     map path ss = map Some ns \<and> map (\<lambda>s. Inr (contents s)) ss = map rd ns"
  by (induction ns arbitrary: ss) (auto split: sum.splits)

lemma bemhtml_sources_no_compile:
  "filter isCompileBEMXJST (snd (bemhtml_getBEMHTMLSources this fl)) = []"
  by (simp add: bemhtml_sources_log split: sum.splits)

lemma bemtree_sources_no_compile:
  "filter isCompileBEMXJST (snd (bemtree_getBEMTREESources this fl)) = []"
  by (simp add: bemtree_sources_log split: sum.splits)

lemma bemhtml_i18n_no_compile:
  "filter isCompileBEMXJST (snd (bemhtml_compileI18N m this kf)) = []"
  by (simp add: bemhtml_i18n_log Let_def split: sum.splits)

lemma bemtree_i18n_no_compile:
  "filter isCompileBEMXJST (snd (bemtree_compileI18N m this kf)) = []"
  by (simp add: bemtree_i18n_log Let_def split: sum.splits)

lemma bemhtml_sources_no_i18n:
  "filter isCompileI18N (snd (bemhtml_getBEMHTMLSources this fl)) = []"
  by (simp add: bemhtml_sources_log split: sum.splits)

lemma bemtree_sources_no_i18n:
  "filter isCompileI18N (snd (bemtree_getBEMTREESources this fl)) = []"
  by (simp add: bemtree_sources_log split: sum.splits)

lemma bemhtml_builder_i18n_calls:
  "fileList \<noteq> [] \<Longrightarrow>
   filter isCompileI18N (snd (bemhtml_builder m first this fileList kf)) =
     filter isCompileI18N (snd (bemhtml_compileI18N m this kf))"
  by (simp add: bemhtml_builder_log bemhtml_sources_no_i18n split: sum.splits)

lemma bemtree_builder_i18n_calls:
  "fileList \<noteq> [] \<Longrightarrow>
   filter isCompileI18N (snd (bemtree_builder m first this fileList kf)) =
     filter isCompileI18N (snd (bemtree_compileI18N m this kf))"
  by (simp add: bemtree_builder_log bemtree_sources_no_i18n split: sum.splits)

section \<open>The claims\<close>

text \<open>
  C1. With an empty file list, the builder of either tech returns the outcome of its mock
  producer (\<open>_mockBEMHTML\<close>, \<open>_mockBEMTREE\<close>) and makes no other call. The result is
  the same whatever the required modules, the keyset file name and the order of the
  branches are, so it does not depend on the keyset file.
\<close>

theorem empty_fileList_returns_mock:
  "bemhtml_builder m first this [] keysetsFilename = (mockBEMHTML this, [EvMockBEMHTML])
   \<and> bemtree_builder m first that [] keysetsFilename = (mockBEMTREE that, [EvMockBEMTREE])
   \<and> bemhtml_builder m' first' this [] keysetsFilename' =
       bemhtml_builder m first this [] keysetsFilename
   \<and> bemtree_builder m' first' that [] keysetsFilename' =
       bemtree_builder m first that [] keysetsFilename"
  by (simp add: bemhtml_builder_def bemtree_builder_def)



lemma example_fileList_nonempty: "example_fileList \<noteq> []"
  by (simp add: example_fileList_def)

lemma example_unique: "base_getUniqueFilenames example_fileList = [''a.bemhtml'', ''b.bemhtml'']"
  by (simp add: base_getUniqueFilenames_def example_fileList_def)

lemma example_read:
  "base_readFiles example_disk [''a.bemhtml'', ''b.bemhtml''] =
     Inr [\<lparr>path = Some ''a.bemhtml'', contents = ''block(a)''\<rparr>,
          \<lparr>path = Some ''b.bemhtml'', contents = ''block(b)''\<rparr>]"
  by (simp add: example_disk_def)

lemma example_bemhtml_sources:
  "bemhtml_getBEMHTMLSources example_bemhtml example_fileList =
     (Inr [\<lparr>path = Some ''a.bemhtml'', contents = ''block(a)''\<rparr>,
           \<lparr>path = Some ''b.bemhtml'', contents = ''block(b)''\<rparr>],
      [EvReadFiles [''a.bemhtml'', ''b.bemhtml''],
       EvProcessSources [\<lparr>path = Some ''a.bemhtml'', contents = ''block(a)''\<rparr>,
                         \<lparr>path = Some ''b.bemhtml'', contents = ''block(b)''\<rparr>]])"
  by (simp add: bemhtml_getBEMHTMLSources_def example_bemhtml_def example_unique example_disk_def
        then_promise_def Let_def)

lemma example_bemtree_sources:
  "bemtree_getBEMTREESources example_bemtree example_fileList =
     (Inr [\<lparr>path = Some ''a.bemhtml'', contents = ''block(a)''\<rparr>,
           \<lparr>path = Some ''b.bemhtml'', contents = ''block(b)''\<rparr>],
      [EvReadFiles [''a.bemhtml'', ''b.bemhtml''],
       EvProcessSources [\<lparr>path = Some ''a.bemhtml'', contents = ''block(a)''\<rparr>,
                         \<lparr>path = Some ''b.bemhtml'', contents = ''block(b)''\<rparr>]])"
  by (simp add: bemtree_getBEMTREESources_def example_bemtree_def example_unique example_disk_def
        then_promise_def Let_def)

lemma example_bemhtml_i18n:
  "bemhtml_compileI18N example_modules example_bemhtml ''bundle.keysets.en.js'' =
     (Inr ''function () {}'',
      [EvKeysetsRead ''bundle.keysets.en.js'' ''cache:bundle.bemhtml.en.js'' ''/project'',
       EvKeysetsParse ''raw keysets'',
       EvCompileI18N JUndefined example_keysets
         (JObject [(''version'', JNumber 1), (''language'', JString ''en'')])])"
  by (simp add: bemhtml_compileI18N_def bemhtml_readKeysetsFile_def example_modules_def
        example_bemhtml_def example_node_def then_promise_def)

lemma example_bemtree_i18n:
  "bemtree_compileI18N example_modules example_bemtree ''bundle.keysets.en.js'' =
     (Inr ''function () {}'',
      [EvKeysetsRead ''bundle.keysets.en.js'' ''cache:bundle.bemtree.en.js'' ''/project'',
       EvKeysetsParse ''raw keysets'',
       EvCompileI18N JUndefined example_keysets
         (JObject [(''version'', JNumber 1), (''language'', JString ''en'')])])"
  by (simp add: bemtree_compileI18N_def bemtree_readKeysetsFile_def example_modules_def
        example_bemtree_def example_node_def then_promise_def)

lemma example_bemhtml_i18n_missing:
  "bemhtml_compileI18N example_modules example_bemhtml ''none.keysets.en.js'' =
     (Inl (FileReadError ''none.keysets.en.js''),
      [EvKeysetsRead ''none.keysets.en.js'' ''cache:bundle.bemhtml.en.js'' ''/project''])"
  by (simp add: bemhtml_compileI18N_def bemhtml_readKeysetsFile_def example_modules_def
        example_bemhtml_def example_node_def then_promise_def)

lemma example_bemtree_i18n_missing:
  "bemtree_compileI18N example_modules example_bemtree ''none.keysets.en.js'' =
     (Inl (FileReadError ''none.keysets.en.js''),
      [EvKeysetsRead ''none.keysets.en.js'' ''cache:bundle.bemtree.en.js'' ''/project''])"
  by (simp add: bemtree_compileI18N_def bemtree_readKeysetsFile_def example_modules_def
        example_bemtree_def example_node_def then_promise_def)


text \<open>
  C4. When the keyset file is read and its contents parse to version \<open>V\<close>, keysets
  \<open>K\<close> and core \<open>C\<close>, \<open>_compileI18N\<close> calls the localization compiler exactly once,
  with \<open>C\<close>, \<open>K\<close> and the options \<open>{version: V, language: _lang}\<close>: the parsed
  keysets, not the raw contents. The outcome of that call is the outcome of the method, and
  a build with a non-empty file list makes this one call and no other to the compiler.
\<close>

theorem localization_compiler_arguments:
  assumes "keysets_parse m raw = Inr \<lparr>version = V, keysets = K, core = C\<rparr>"
  shows
    "(keysets_read m keysetsFilename (getNodeCache (node this) (target this))
         (getRootDir (node this)) = Inr raw \<longrightarrow>
        fst (bemhtml_compileI18N m this keysetsFilename) =
          compileI18N m C K (JObject [(''version'', V), (''language'', JString (lang this))])
        \<and> filter isCompileI18N (snd (bemhtml_compileI18N m this keysetsFilename)) =
            [EvCompileI18N C K (JObject [(''version'', V), (''language'', JString (lang this))])]
        \<and> (fileList \<noteq> [] \<longrightarrow>
             filter isCompileI18N (snd (bemhtml_builder m first this fileList keysetsFilename)) =
               [EvCompileI18N C K
                  (JObject [(''version'', V), (''language'', JString (lang this))])]))
     \<and> (keysets_read m keysetsFilename (getNodeCache (node that) (target that))
         (getRootDir (node that)) = Inr raw \<longrightarrow>
        fst (bemtree_compileI18N m that keysetsFilename) =
          compileI18N m C K (JObject [(''version'', V), (''language'', JString (lang that))])
        \<and> filter isCompileI18N (snd (bemtree_compileI18N m that keysetsFilename)) =
            [EvCompileI18N C K (JObject [(''version'', V), (''language'', JString (lang that))])]
        \<and> (fileList \<noteq> [] \<longrightarrow>
             filter isCompileI18N (snd (bemtree_builder m first that fileList keysetsFilename)) =
               [EvCompileI18N C K
                  (JObject [(''version'', V), (''language'', JString (lang that))])]))"
  using assms
  by (simp add: bemhtml_i18n_result bemhtml_i18n_log bemhtml_builder_i18n_calls
        bemtree_i18n_result bemtree_i18n_log bemtree_builder_i18n_calls Let_def)

lemma example_parse:
  "keysets_parse example_modules ''raw keysets'' =
     Inr \<lparr>version = JNumber 1, keysets = example_keysets, core = JUndefined\<rparr>"
  by (simp add: example_modules_def)

theorem localization_compiler_arguments_witness:
  "keysets_parse example_modules ''raw keysets'' =
     Inr \<lparr>version = JNumber 1, keysets = example_keysets, core = JUndefined\<rparr>
   \<and> keysets_read example_modules ''bundle.keysets.en.js'' ''cache:bundle.bemhtml.en.js''
        ''/project'' = Inr ''raw keysets''
   \<and> example_fileList \<noteq> []
   \<and> filter isCompileI18N
        (snd (bemhtml_builder example_modules FirstBranch example_bemhtml example_fileList
                ''bundle.keysets.en.js'')) =
       [EvCompileI18N JUndefined example_keysets
          (JObject [(''version'', JNumber 1), (''language'', JString ''en'')])]
   \<and> filter isCompileI18N
        (snd (bemtree_builder example_modules FirstBranch example_bemtree example_fileList
                ''bundle.keysets.en.js'')) =
       [EvCompileI18N JUndefined example_keysets
          (JObject [(''version'', JNumber 1), (''language'', JString ''en'')])]"
proof -
  have rd: "keysets_read example_modules ''bundle.keysets.en.js'' c r = Inr ''raw keysets''"
    for c r
    by (simp add: example_modules_def)
  have l: "lang example_bemhtml = ''en''" "lang example_bemtree = ''en''"
    by (simp_all add: example_bemhtml_def example_bemtree_def)
  show ?thesis
    using localization_compiler_arguments [OF example_parse,
        of "''bundle.keysets.en.js''" example_bemhtml example_fileList FirstBranch
           example_bemtree]
      example_parse example_fileList_nonempty
    by (simp add: rd l)
qed

text \<open>
  C5. The claim that the keyset file is still read when the file list is empty fails: in
  the scenario, the build of an empty file list logs the call of the mock producer only,
  and the read of the keyset file is not in the log.
\<close>

theorem keyset_read_on_empty_fileList_counterexample:
  "snd (bemhtml_builder example_modules FirstBranch example_bemhtml []
          ''bundle.keysets.en.js'') = [EvMockBEMHTML]
   \<and> EvKeysetsRead ''bundle.keysets.en.js'' ''cache:bundle.bemhtml.en.js'' ''/project''
     \<notin> set (snd (bemhtml_builder example_modules FirstBranch example_bemhtml []
                    ''bundle.keysets.en.js''))
"
  by (simp add: bemhtml_builder_def)

text \<open>
  C5, as amended. With an empty file list the builder returns before the keyset branch is
  started: it reads no file and calls neither the keyset reader, the keyset parser nor the
  localization compiler.
\<close>

theorem empty_fileList_skips_keyset_branch:
  "filter isKeysetCall (snd (bemhtml_builder m first this [] keysetsFilename)) = []
   \<and> filter isFileRead (snd (bemhtml_builder m first this [] keysetsFilename)) = []
   \<and> filter isKeysetCall (snd (bemtree_builder m first that [] keysetsFilename)) = []
   \<and> filter isFileRead (snd (bemtree_builder m first that [] keysetsFilename)) = []"
  by (simp add: bemhtml_builder_def bemtree_builder_def)

text \<open>
  C6. When the option \<open>lang\<close> is absent from the configuration, the task of either tech
  fails with \<open>MissingConfigurationError\<close>; the log is empty, so no file was read and
  no compiler was called, and no bundle is produced.
\<close>

theorem missing_lang_fails_task:
  assumes "opts ''lang'' = None"
  shows "bemhtml_i18n_task m first opts this fileList keysetsFilename =
           (Inl (MissingConfigurationError ''lang''), [])
         \<and> bemtree_i18n_task m first opts that fileList keysetsFilename =
           (Inl (MissingConfigurationError ''lang''), [])"
  using assms
  by (simp add: bemhtml_i18n_task_def bemtree_i18n_task_def bemhtml_i18n_def bemtree_i18n_def)

theorem missing_lang_fails_task_witness:
  "(Map.empty :: options) ''lang'' = None
   \<and> bemhtml_i18n_task example_modules FirstBranch Map.empty example_bemhtml example_fileList
        ''bundle.keysets.en.js'' = (Inl (MissingConfigurationError ''lang''), [])
   \<and> bemtree_i18n_task example_modules FirstBranch Map.empty example_bemtree example_fileList
        ''bundle.keysets.en.js'' = (Inl (MissingConfigurationError ''lang''), [])"
  using missing_lang_fails_task [of Map.empty example_modules FirstBranch example_bemhtml
      example_fileList "''bundle.keysets.en.js''" example_bemtree]
  by simp

text \<open>
  C9. The declaration of \<open>bemhtml-i18n\<close> gives the option \<open>target\<close> the default
  \<open>?.bemhtml.{lang}.js\<close>, that of \<open>bemtree-i18n\<close> gives it \<open>?.bemtree.{lang}.js\<close>,
  and both give the source file option \<open>keysetsFile\<close> the default
  \<open>?.keysets.{lang}.js\<close>. A configuration that sets neither option gets these values.
\<close>

theorem declared_defaults:
  "targetOption bemhtml_i18n = (''target'', ''?.bemhtml.{lang}.js'')
   \<and> targetOption bemtree_i18n = (''target'', ''?.bemtree.{lang}.js'')
   \<and> sourceFilename bemhtml_i18n = (''keysetsFile'', ''?.keysets.{lang}.js'')
   \<and> sourceFilename bemtree_i18n = (''keysetsFile'', ''?.keysets.{lang}.js'')
   \<and> getOption Map.empty (targetOption bemhtml_i18n) = ''?.bemhtml.{lang}.js''
   \<and> getOption Map.empty (targetOption bemtree_i18n) = ''?.bemtree.{lang}.js''
   \<and> getOption Map.empty (sourceFilename bemhtml_i18n) = ''?.keysets.{lang}.js''
   \<and> getOption Map.empty (sourceFilename bemtree_i18n) = ''?.keysets.{lang}.js''"
  by (simp add: bemhtml_i18n_def bemtree_i18n_def getOption_def)

text \<open>
  C10. Each builder is the one shared definition, applied to the tech's own mock producer
  and compiler name (none for \<open>bemhtml-i18n\<close>, \<open>bemtree\<close> for \<open>bemtree-i18n\<close>); on
  the same instance the two techs' methods for the template sources and for the
  localization code agree, and the initialization entries are the same text.
\<close>

theorem builders_differ_in_mock_and_mode:
  "bemhtml_builder m first this fileList keysetsFilename =
     i18n_builder_spec m first this (mockBEMHTML this, [EvMockBEMHTML]) None
       fileList keysetsFilename
   \<and> bemtree_builder m first that fileList keysetsFilename =
     i18n_builder_spec m first that (mockBEMTREE that, [EvMockBEMTREE]) (Some ''bemtree'')
       fileList keysetsFilename
   \<and> bemtree_getBEMTREESources base fileList = bemhtml_getBEMHTMLSources base fileList
   \<and> bemtree_compileI18N m base keysetsFilename = bemhtml_compileI18N m base keysetsFilename
   \<and> bemtree_oninit_source m I18NCode = bemhtml_oninit_source m I18NCode"
proof (intro conjI)
  show "bemhtml_builder m first this fileList keysetsFilename =
     i18n_builder_spec m first this (mockBEMHTML this, [EvMockBEMHTML]) None
       fileList keysetsFilename"
    by (simp add: bemhtml_builder_def i18n_builder_spec_def bemhtml_getBEMHTMLSources_def
          bemhtml_compileI18N_def bemhtml_readKeysetsFile_def bemhtml_oninit_source_def Let_def
          then_promise_def split: sum.splits)
  show "bemtree_builder m first that fileList keysetsFilename =
     i18n_builder_spec m first that (mockBEMTREE that, [EvMockBEMTREE]) (Some ''bemtree'')
       fileList keysetsFilename"
    by (simp add: bemtree_builder_def i18n_builder_spec_def bemtree_getBEMTREESources_def
          bemtree_compileI18N_def bemtree_readKeysetsFile_def bemtree_oninit_source_def Let_def
          then_promise_def split: sum.splits)
  show "bemtree_getBEMTREESources base fileList = bemhtml_getBEMHTMLSources base fileList"
    by (simp add: bemtree_getBEMTREESources_def bemhtml_getBEMHTMLSources_def)
  show "bemtree_compileI18N m base keysetsFilename = bemhtml_compileI18N m base keysetsFilename"
    by (simp add: bemtree_compileI18N_def bemhtml_compileI18N_def bemtree_readKeysetsFile_def
          bemhtml_readKeysetsFile_def)
  show "bemtree_oninit_source m I18NCode = bemhtml_oninit_source m I18NCode"
    by (simp add: bemtree_oninit_source_def bemhtml_oninit_source_def)
qed

lemma base_getUniqueFilenames_first:
  "base_getUniqueFilenames fileList = first_occurrences (map fullname fileList)"
  by (simp add: base_getUniqueFilenames_def first_occurrences_def uniqueFilenames_index)

lemma base_getUniqueFilenames_distinct:
  "distinct (base_getUniqueFilenames fileList)
   \<and> set (base_getUniqueFilenames fileList) = fullname ` set fileList"
  using uniqueFilenames_distinct [of "[]" fileList]
  by (simp add: base_getUniqueFilenames_def)

text \<open>
  C3. With the inherited \<open>_getUniqueFilenames\<close> and \<open>_readFiles\<close> as the spec describes
  them, the files read for a build are the first occurrences of the paths of the file
  list, in the order of the list: one entry per path, holding that file's contents. A
  later entry with a path already met adds nothing. \<open>_processSources\<close> gets exactly
  these entries, and the template compiler gets its result followed by the
  initialization entry.
\<close>

theorem only_first_occurrence_is_read:
  assumes "fileList \<noteq> []"
  shows
    "(getUniqueFilenames this = base_getUniqueFilenames \<and> readFiles this = base_readFiles rd
      \<and> bemhtml_getBEMHTMLSources this fileList = (Inr BEMHTMLSources, ts)
      \<and> bemhtml_compileI18N m this keysetsFilename = (Inr I18NCode, tk) \<longrightarrow>
        (\<exists>raw. map path raw = map Some (first_occurrences (map fullname fileList))
              \<and> map (\<lambda>s. Inr (contents s)) raw =
                  map rd (first_occurrences (map fullname fileList))
              \<and> distinct (map path raw)
              \<and> processSources this raw = Inr BEMHTMLSources
              \<and> filter isCompileBEMXJST
                    (snd (bemhtml_builder m first this fileList keysetsFilename)) =
                  [EvCompileBEMXJST (BEMHTMLSources @ [bemhtml_oninit_source m I18NCode])
                     None]))
     \<and> (getUniqueFilenames that = base_getUniqueFilenames \<and> readFiles that = base_readFiles rd
      \<and> bemtree_getBEMTREESources that fileList = (Inr BEMTREESources, ts')
      \<and> bemtree_compileI18N m that keysetsFilename = (Inr I18NCode', tk') \<longrightarrow>
        (\<exists>raw. map path raw = map Some (first_occurrences (map fullname fileList))
              \<and> map (\<lambda>s. Inr (contents s)) raw =
                  map rd (first_occurrences (map fullname fileList))
              \<and> distinct (map path raw)
              \<and> processSources that raw = Inr BEMTREESources
              \<and> filter isCompileBEMXJST
                    (snd (bemtree_builder m first that fileList keysetsFilename)) =
                  [EvCompileBEMXJST (BEMTREESources @ [bemtree_oninit_source m I18NCode'])
                     (Some ''bemtree'')]))"
proof (intro conjI impI)
  assume h: "getUniqueFilenames this = base_getUniqueFilenames \<and> readFiles this = base_readFiles rd
      \<and> bemhtml_getBEMHTMLSources this fileList = (Inr BEMHTMLSources, ts)
      \<and> bemhtml_compileI18N m this keysetsFilename = (Inr I18NCode, tk)"
  then have fs: "fst (bemhtml_getBEMHTMLSources this fileList) = Inr BEMHTMLSources"
    and fk: "fst (bemhtml_compileI18N m this keysetsFilename) = Inr I18NCode"
    by simp_all
  from h have u: "getUniqueFilenames this = base_getUniqueFilenames"
    and r: "readFiles this = base_readFiles rd"
    by simp_all
  have "(case base_readFiles rd (base_getUniqueFilenames fileList) of
           Inl e \<Rightarrow> Inl e
         | Inr raw \<Rightarrow> processSources this raw) = Inr BEMHTMLSources"
    using fs unfolding bemhtml_sources_result u r .
  then obtain raw
    where rd: "base_readFiles rd (base_getUniqueFilenames fileList) = Inr raw"
      and pr: "processSources this raw = Inr BEMHTMLSources"
    by (auto split: sum.splits)
  from base_readFiles_entries [OF rd]
  have ent: "map path raw = map Some (first_occurrences (map fullname fileList))"
            "map (\<lambda>s. Inr (contents s)) raw = map rd (first_occurrences (map fullname fileList))"
    by (simp_all add: base_getUniqueFilenames_first)
  have "distinct (map Some (base_getUniqueFilenames fileList))"
    using base_getUniqueFilenames_distinct [of fileList] by (simp add: distinct_map)
  then have dist: "distinct (map path raw)"
    using ent(1) by (simp add: base_getUniqueFilenames_first)
  have log: "filter isCompileBEMXJST (snd (bemhtml_builder m first this fileList keysetsFilename)) =
       [EvCompileBEMXJST (BEMHTMLSources @ [bemhtml_oninit_source m I18NCode]) None]"
    using assms fs fk
    by (simp add: bemhtml_builder_log bemhtml_sources_no_compile bemhtml_i18n_no_compile)
  from ent dist pr log
  show "\<exists>raw. map path raw = map Some (first_occurrences (map fullname fileList))
              \<and> map (\<lambda>s. Inr (contents s)) raw =
                  map rd (first_occurrences (map fullname fileList))
              \<and> distinct (map path raw)
              \<and> processSources this raw = Inr BEMHTMLSources
              \<and> filter isCompileBEMXJST
                    (snd (bemhtml_builder m first this fileList keysetsFilename)) =
                  [EvCompileBEMXJST (BEMHTMLSources @ [bemhtml_oninit_source m I18NCode])
                     None]"
    by blast
next
  assume h: "getUniqueFilenames that = base_getUniqueFilenames \<and> readFiles that = base_readFiles rd
      \<and> bemtree_getBEMTREESources that fileList = (Inr BEMTREESources, ts')
      \<and> bemtree_compileI18N m that keysetsFilename = (Inr I18NCode', tk')"
  then have fs: "fst (bemtree_getBEMTREESources that fileList) = Inr BEMTREESources"
    and fk: "fst (bemtree_compileI18N m that keysetsFilename) = Inr I18NCode'"
    by simp_all
  from h have u: "getUniqueFilenames that = base_getUniqueFilenames"
    and r: "readFiles that = base_readFiles rd"
    by simp_all
  have "(case base_readFiles rd (base_getUniqueFilenames fileList) of
           Inl e \<Rightarrow> Inl e
         | Inr raw \<Rightarrow> processSources that raw) = Inr BEMTREESources"
    using fs unfolding bemtree_sources_result u r .
  then obtain raw
    where rd: "base_readFiles rd (base_getUniqueFilenames fileList) = Inr raw"
      and pr: "processSources that raw = Inr BEMTREESources"
    by (auto split: sum.splits)
  from base_readFiles_entries [OF rd]
  have ent: "map path raw = map Some (first_occurrences (map fullname fileList))"
            "map (\<lambda>s. Inr (contents s)) raw = map rd (first_occurrences (map fullname fileList))"
    by (simp_all add: base_getUniqueFilenames_first)
  have "distinct (map Some (base_getUniqueFilenames fileList))"
    using base_getUniqueFilenames_distinct [of fileList] by (simp add: distinct_map)
  then have dist: "distinct (map path raw)"
    using ent(1) by (simp add: base_getUniqueFilenames_first)
  have log: "filter isCompileBEMXJST (snd (bemtree_builder m first that fileList keysetsFilename)) =
       [EvCompileBEMXJST (BEMTREESources @ [bemtree_oninit_source m I18NCode'])
          (Some ''bemtree'')]"
    using assms fs fk
    by (simp add: bemtree_builder_log bemtree_sources_no_compile bemtree_i18n_no_compile)
  from ent dist pr log
  show "\<exists>raw. map path raw = map Some (first_occurrences (map fullname fileList))
              \<and> map (\<lambda>s. Inr (contents s)) raw =
                  map rd (first_occurrences (map fullname fileList))
              \<and> distinct (map path raw)
              \<and> processSources that raw = Inr BEMTREESources
              \<and> filter isCompileBEMXJST
                    (snd (bemtree_builder m first that fileList keysetsFilename)) =
                  [EvCompileBEMXJST (BEMTREESources @ [bemtree_oninit_source m I18NCode'])
                     (Some ''bemtree'')]"
    by blast
qed


lemma example_first_occurrences:
  "first_occurrences (map fullname example_fileList) = [''a.bemhtml'', ''b.bemhtml'']"
  using base_getUniqueFilenames_first [of example_fileList] by (simp add: example_unique)

theorem only_first_occurrence_is_read_witness:
  "example_fileList \<noteq> []
   \<and> map fullname example_fileList = [''a.bemhtml'', ''b.bemhtml'', ''a.bemhtml'']
   \<and> getUniqueFilenames example_bemhtml = base_getUniqueFilenames
   \<and> readFiles example_bemhtml = base_readFiles example_disk
   \<and> (\<exists>raw. map path raw = map Some [''a.bemhtml'', ''b.bemhtml'']
          \<and> map (\<lambda>s. Inr (contents s)) raw = map example_disk [''a.bemhtml'', ''b.bemhtml'']
          \<and> processSources example_bemhtml raw =
              Inr [\<lparr>path = Some ''a.bemhtml'', contents = ''block(a)''\<rparr>,
                   \<lparr>path = Some ''b.bemhtml'', contents = ''block(b)''\<rparr>]
          \<and> filter isCompileBEMXJST
               (snd (bemhtml_builder example_modules FirstBranch example_bemhtml
                       example_fileList ''bundle.keysets.en.js'')) =
              [EvCompileBEMXJST
                 ([\<lparr>path = Some ''a.bemhtml'', contents = ''block(a)''\<rparr>,
                   \<lparr>path = Some ''b.bemhtml'', contents = ''block(b)''\<rparr>]
                  @ [bemhtml_oninit_source example_modules ''function () {}'']) None])
   \<and> getUniqueFilenames example_bemtree = base_getUniqueFilenames
   \<and> readFiles example_bemtree = base_readFiles example_disk
   \<and> (\<exists>raw. map path raw = map Some [''a.bemhtml'', ''b.bemhtml'']
          \<and> map (\<lambda>s. Inr (contents s)) raw = map example_disk [''a.bemhtml'', ''b.bemhtml'']
          \<and> processSources example_bemtree raw =
              Inr [\<lparr>path = Some ''a.bemhtml'', contents = ''block(a)''\<rparr>,
                   \<lparr>path = Some ''b.bemhtml'', contents = ''block(b)''\<rparr>]
          \<and> filter isCompileBEMXJST
               (snd (bemtree_builder example_modules FirstBranch example_bemtree
                       example_fileList ''bundle.keysets.en.js'')) =
              [EvCompileBEMXJST
                 ([\<lparr>path = Some ''a.bemhtml'', contents = ''block(a)''\<rparr>,
                   \<lparr>path = Some ''b.bemhtml'', contents = ''block(b)''\<rparr>]
                  @ [bemtree_oninit_source example_modules ''function () {}''])
                 (Some ''bemtree'')])"
proof -
  have u: "getUniqueFilenames example_bemhtml = base_getUniqueFilenames"
    and r: "readFiles example_bemhtml = base_readFiles example_disk"
    by (simp_all add: example_bemhtml_def)
  have u': "getUniqueFilenames example_bemtree = base_getUniqueFilenames"
    and r': "readFiles example_bemtree = base_readFiles example_disk"
    by (simp_all add: example_bemtree_def)
  have n: "map fullname example_fileList = [''a.bemhtml'', ''b.bemhtml'', ''a.bemhtml'']"
    by (simp add: example_fileList_def)
  note both = only_first_occurrence_is_read [OF example_fileList_nonempty,
      of example_bemhtml example_disk
         "[\<lparr>path = Some ''a.bemhtml'', contents = ''block(a)''\<rparr>,
           \<lparr>path = Some ''b.bemhtml'', contents = ''block(b)''\<rparr>]"
         "[EvReadFiles [''a.bemhtml'', ''b.bemhtml''],
           EvProcessSources [\<lparr>path = Some ''a.bemhtml'', contents = ''block(a)''\<rparr>,
                             \<lparr>path = Some ''b.bemhtml'', contents = ''block(b)''\<rparr>]]"
         example_modules "''bundle.keysets.en.js''" "''function () {}''"
         "[EvKeysetsRead ''bundle.keysets.en.js'' ''cache:bundle.bemhtml.en.js'' ''/project'',
           EvKeysetsParse ''raw keysets'',
           EvCompileI18N JUndefined example_keysets
             (JObject [(''version'', JNumber 1), (''language'', JString ''en'')])]"
         FirstBranch example_bemtree
         "[\<lparr>path = Some ''a.bemhtml'', contents = ''block(a)''\<rparr>,
           \<lparr>path = Some ''b.bemhtml'', contents = ''block(b)''\<rparr>]"
         "[EvReadFiles [''a.bemhtml'', ''b.bemhtml''],
           EvProcessSources [\<lparr>path = Some ''a.bemhtml'', contents = ''block(a)''\<rparr>,
                             \<lparr>path = Some ''b.bemhtml'', contents = ''block(b)''\<rparr>]]"
         "''function () {}''"
         "[EvKeysetsRead ''bundle.keysets.en.js'' ''cache:bundle.bemtree.en.js'' ''/project'',
           EvKeysetsParse ''raw keysets'',
           EvCompileI18N JUndefined example_keysets
             (JObject [(''version'', JNumber 1), (''language'', JString ''en'')])]"]
  have html: "\<exists>raw. map path raw = map Some [''a.bemhtml'', ''b.bemhtml'']
          \<and> map (\<lambda>s. Inr (contents s)) raw = map example_disk [''a.bemhtml'', ''b.bemhtml'']
          \<and> distinct (map path raw)
          \<and> processSources example_bemhtml raw =
              Inr [\<lparr>path = Some ''a.bemhtml'', contents = ''block(a)''\<rparr>,
                   \<lparr>path = Some ''b.bemhtml'', contents = ''block(b)''\<rparr>]
          \<and> filter isCompileBEMXJST
               (snd (bemhtml_builder example_modules FirstBranch example_bemhtml
                       example_fileList ''bundle.keysets.en.js'')) =
              [EvCompileBEMXJST
                 ([\<lparr>path = Some ''a.bemhtml'', contents = ''block(a)''\<rparr>,
                   \<lparr>path = Some ''b.bemhtml'', contents = ''block(b)''\<rparr>]
                  @ [bemhtml_oninit_source example_modules ''function () {}'']) None]"
    using both [THEN conjunct1, rule_format,
        OF conjI [OF u conjI [OF r conjI [OF example_bemhtml_sources example_bemhtml_i18n]]]]
    unfolding example_first_occurrences .
  have tree: "\<exists>raw. map path raw = map Some [''a.bemhtml'', ''b.bemhtml'']
          \<and> map (\<lambda>s. Inr (contents s)) raw = map example_disk [''a.bemhtml'', ''b.bemhtml'']
          \<and> distinct (map path raw)
          \<and> processSources example_bemtree raw =
              Inr [\<lparr>path = Some ''a.bemhtml'', contents = ''block(a)''\<rparr>,
                   \<lparr>path = Some ''b.bemhtml'', contents = ''block(b)''\<rparr>]
          \<and> filter isCompileBEMXJST
               (snd (bemtree_builder example_modules FirstBranch example_bemtree
                       example_fileList ''bundle.keysets.en.js'')) =
              [EvCompileBEMXJST
                 ([\<lparr>path = Some ''a.bemhtml'', contents = ''block(a)''\<rparr>,
                   \<lparr>path = Some ''b.bemhtml'', contents = ''block(b)''\<rparr>]
                  @ [bemtree_oninit_source example_modules ''function () {}''])
                 (Some ''bemtree'')]"
    using both [THEN conjunct2, rule_format,
        OF conjI [OF u' conjI [OF r' conjI [OF example_bemtree_sources example_bemtree_i18n]]]]
    unfolding example_first_occurrences .
  from html obtain raw
    where "map path raw = map Some [''a.bemhtml'', ''b.bemhtml'']"
      and "map (\<lambda>s. Inr (contents s)) raw = map example_disk [''a.bemhtml'', ''b.bemhtml'']"
      and "processSources example_bemhtml raw =
              Inr [\<lparr>path = Some ''a.bemhtml'', contents = ''block(a)''\<rparr>,
                   \<lparr>path = Some ''b.bemhtml'', contents = ''block(b)''\<rparr>]"
      and "filter isCompileBEMXJST
               (snd (bemhtml_builder example_modules FirstBranch example_bemhtml
                       example_fileList ''bundle.keysets.en.js'')) =
              [EvCompileBEMXJST
                 ([\<lparr>path = Some ''a.bemhtml'', contents = ''block(a)''\<rparr>,
                   \<lparr>path = Some ''b.bemhtml'', contents = ''block(b)''\<rparr>]
                  @ [bemhtml_oninit_source example_modules ''function () {}'']) None]"
    by (elim exE conjE) (rule that)
  then have html': "\<exists>raw. map path raw = map Some [''a.bemhtml'', ''b.bemhtml'']
          \<and> map (\<lambda>s. Inr (contents s)) raw = map example_disk [''a.bemhtml'', ''b.bemhtml'']
          \<and> processSources example_bemhtml raw =
              Inr [\<lparr>path = Some ''a.bemhtml'', contents = ''block(a)''\<rparr>,
                   \<lparr>path = Some ''b.bemhtml'', contents = ''block(b)''\<rparr>]
          \<and> filter isCompileBEMXJST
               (snd (bemhtml_builder example_modules FirstBranch example_bemhtml
                       example_fileList ''bundle.keysets.en.js'')) =
              [EvCompileBEMXJST
                 ([\<lparr>path = Some ''a.bemhtml'', contents = ''block(a)''\<rparr>,
                   \<lparr>path = Some ''b.bemhtml'', contents = ''block(b)''\<rparr>]
                  @ [bemhtml_oninit_source example_modules ''function () {}'']) None]"
    by (intro exI [of _ raw] conjI)
  from tree obtain raw'
    where "map path raw' = map Some [''a.bemhtml'', ''b.bemhtml'']"
      and "map (\<lambda>s. Inr (contents s)) raw' = map example_disk [''a.bemhtml'', ''b.bemhtml'']"
      and "processSources example_bemtree raw' =
              Inr [\<lparr>path = Some ''a.bemhtml'', contents = ''block(a)''\<rparr>,
                   \<lparr>path = Some ''b.bemhtml'', contents = ''block(b)''\<rparr>]"
      and "filter isCompileBEMXJST
               (snd (bemtree_builder example_modules FirstBranch example_bemtree
                       example_fileList ''bundle.keysets.en.js'')) =
              [EvCompileBEMXJST
                 ([\<lparr>path = Some ''a.bemhtml'', contents = ''block(a)''\<rparr>,
                   \<lparr>path = Some ''b.bemhtml'', contents = ''block(b)''\<rparr>]
                  @ [bemtree_oninit_source example_modules ''function () {}''])
                 (Some ''bemtree'')]"
    by (elim exE conjE) (rule that)
  then have tree': "\<exists>raw. map path raw = map Some [''a.bemhtml'', ''b.bemhtml'']
          \<and> map (\<lambda>s. Inr (contents s)) raw = map example_disk [''a.bemhtml'', ''b.bemhtml'']
          \<and> processSources example_bemtree raw =
              Inr [\<lparr>path = Some ''a.bemhtml'', contents = ''block(a)''\<rparr>,
                   \<lparr>path = Some ''b.bemhtml'', contents = ''block(b)''\<rparr>]
          \<and> filter isCompileBEMXJST
               (snd (bemtree_builder example_modules FirstBranch example_bemtree
                       example_fileList ''bundle.keysets.en.js'')) =
              [EvCompileBEMXJST
                 ([\<lparr>path = Some ''a.bemhtml'', contents = ''block(a)''\<rparr>,
                   \<lparr>path = Some ''b.bemhtml'', contents = ''block(b)''\<rparr>]
                  @ [bemtree_oninit_source example_modules ''function () {}''])
                 (Some ''bemtree'')]"
    by (intro exI [of _ raw'] conjI)
  show ?thesis
    by (intro conjI example_fileList_nonempty n u r html' u' r' tree')
qed

text \<open>
  C7. With a non-empty file list, a rejection of either branch rejects the build: with the
  error of the branch that failed when only one failed, and with the error of the branch
  observed first when both failed. The result of the other branch is dropped, and
  \<open>_compileBEMXJST\<close> is not called, so no bundle is produced.
\<close>

theorem branch_failure_aborts_build:
  assumes "fileList \<noteq> []"
  shows
    "(fst (bemhtml_getBEMHTMLSources this fileList) = Inl ea
        \<and> fst (bemhtml_compileI18N m this keysetsFilename) = Inr c \<longrightarrow>
          fst (bemhtml_builder m first this fileList keysetsFilename) = Inl ea)
     \<and> (fst (bemhtml_getBEMHTMLSources this fileList) = Inr s
        \<and> fst (bemhtml_compileI18N m this keysetsFilename) = Inl eb \<longrightarrow>
          fst (bemhtml_builder m first this fileList keysetsFilename) = Inl eb)
     \<and> (fst (bemhtml_getBEMHTMLSources this fileList) = Inl ea
        \<and> fst (bemhtml_compileI18N m this keysetsFilename) = Inl eb \<longrightarrow>
          fst (bemhtml_builder m first this fileList keysetsFilename) =
            Inl (if first = FirstBranch then ea else eb))
     \<and> (isl (fst (bemhtml_getBEMHTMLSources this fileList))
        \<or> isl (fst (bemhtml_compileI18N m this keysetsFilename)) \<longrightarrow>
          isl (fst (bemhtml_builder m first this fileList keysetsFilename))
          \<and> filter isCompileBEMXJST
               (snd (bemhtml_builder m first this fileList keysetsFilename)) = [])
     \<and> (fst (bemtree_getBEMTREESources that fileList) = Inl ea
        \<and> fst (bemtree_compileI18N m that keysetsFilename) = Inr c \<longrightarrow>
          fst (bemtree_builder m first that fileList keysetsFilename) = Inl ea)
     \<and> (fst (bemtree_getBEMTREESources that fileList) = Inr s
        \<and> fst (bemtree_compileI18N m that keysetsFilename) = Inl eb \<longrightarrow>
          fst (bemtree_builder m first that fileList keysetsFilename) = Inl eb)
     \<and> (fst (bemtree_getBEMTREESources that fileList) = Inl ea
        \<and> fst (bemtree_compileI18N m that keysetsFilename) = Inl eb \<longrightarrow>
          fst (bemtree_builder m first that fileList keysetsFilename) =
            Inl (if first = FirstBranch then ea else eb))
     \<and> (isl (fst (bemtree_getBEMTREESources that fileList))
        \<or> isl (fst (bemtree_compileI18N m that keysetsFilename)) \<longrightarrow>
          isl (fst (bemtree_builder m first that fileList keysetsFilename))
          \<and> filter isCompileBEMXJST
               (snd (bemtree_builder m first that fileList keysetsFilename)) = [])"
proof -
  have html_log:
    "isl (fst (bemhtml_getBEMHTMLSources this fileList))
        \<or> isl (fst (bemhtml_compileI18N m this keysetsFilename)) \<Longrightarrow>
     isl (fst (bemhtml_builder m first this fileList keysetsFilename))
     \<and> filter isCompileBEMXJST (snd (bemhtml_builder m first this fileList keysetsFilename)) = []"
    using assms
    by (auto simp: bemhtml_builder_result bemhtml_builder_log bemhtml_sources_no_compile
          bemhtml_i18n_no_compile isl_def split: sum.splits)
  have tree_log:
    "isl (fst (bemtree_getBEMTREESources that fileList))
        \<or> isl (fst (bemtree_compileI18N m that keysetsFilename)) \<Longrightarrow>
     isl (fst (bemtree_builder m first that fileList keysetsFilename))
     \<and> filter isCompileBEMXJST (snd (bemtree_builder m first that fileList keysetsFilename)) = []"
    using assms
    by (auto simp: bemtree_builder_result bemtree_builder_log bemtree_sources_no_compile
          bemtree_i18n_no_compile isl_def split: sum.splits)
  show ?thesis
    using assms html_log tree_log
    by (simp add: bemhtml_builder_result bemtree_builder_result)
qed

theorem branch_failure_aborts_build_witness:
  "example_fileList \<noteq> []
   \<and> fst (bemhtml_getBEMHTMLSources example_bemhtml example_fileList) =
       Inr [\<lparr>path = Some ''a.bemhtml'', contents = ''block(a)''\<rparr>,
            \<lparr>path = Some ''b.bemhtml'', contents = ''block(b)''\<rparr>]
   \<and> fst (bemhtml_compileI18N example_modules example_bemhtml ''none.keysets.en.js'') =
       Inl (FileReadError ''none.keysets.en.js'')
   \<and> fst (bemhtml_builder example_modules FirstBranch example_bemhtml example_fileList
            ''none.keysets.en.js'') = Inl (FileReadError ''none.keysets.en.js'')
   \<and> filter isCompileBEMXJST
        (snd (bemhtml_builder example_modules FirstBranch example_bemhtml example_fileList
                ''none.keysets.en.js'')) = []
   \<and> fst (bemtree_builder example_modules FirstBranch example_bemtree example_fileList
            ''none.keysets.en.js'') = Inl (FileReadError ''none.keysets.en.js'')
   \<and> filter isCompileBEMXJST
        (snd (bemtree_builder example_modules FirstBranch example_bemtree example_fileList
                ''none.keysets.en.js'')) = []"
  using branch_failure_aborts_build [OF example_fileList_nonempty,
      of example_bemhtml _ example_modules "''none.keysets.en.js''" _ FirstBranch
         "[\<lparr>path = Some ''a.bemhtml'', contents = ''block(a)''\<rparr>,
           \<lparr>path = Some ''b.bemhtml'', contents = ''block(b)''\<rparr>]"
         "FileReadError ''none.keysets.en.js''" example_bemtree]
    example_fileList_nonempty
  by (simp add: example_bemhtml_sources example_bemtree_sources example_bemhtml_i18n_missing
        example_bemtree_i18n_missing)





lemma example_hook_direct:
  "oninit_hook (EFunction [] []) (RObject 0) (RObject 1) example_heap = Inr example_heap_localized"
  by code_simp

lemma example_hook_fallback:
  "oninit_hook (EFunction [] []) (RObject 1) (RObject 0) example_heap = Inr example_heap_localized"
  by code_simp








end
